theory Spec2Isabelle
  imports Complex_Main "HOL-Library.Sublist" "HOL-Library.Char_ord" "HOL-Library.List_Lexorder"
begin

section \<open>Python values\<close>

text \<open>
  The two clients, \<^verbatim>\<open>gemma_interactive.py\<close> (class GemmaChat) and
  \<^verbatim>\<open>phi_interactive.py\<close> (class PhiChat), are the same program up to a few
  places. Functions that differ take the client as their first argument.
\<close>

datatype client = Gemma | Phi

text \<open>
  What \<^verbatim>\<open>json.loads\<close> returns, and so what the conversation history and the
  service's replies are made of. A Python \<^verbatim>\<open>str\<close> is a list of characters, one
  \<^typ>\<open>char\<close> per code point (code points below 256). A \<^verbatim>\<open>dict\<close> is an
  association list in insertion order, its keys distinct, read by key with
  \<^const>\<open>map_of\<close>. A float is a rational or one of the three non-finite values that
  \<^verbatim>\<open>json.loads\<close> accepts.
\<close>

datatype pyfloat = Finite rat | PosInf | NegInf | NaN

datatype json =
    JNull
  | JBool bool
  | JInt int
  | JFloat pyfloat
  | JStr string
  | JArr "json list"
  | JObj "(string \<times> json) list"

text \<open>The exceptions the two programs can meet.\<close>

datatype exn =
    RequestException
  | UnicodeDecodeError
  | TypeError
  | AttributeError
  | KeyError
  | IndexError

text \<open>Truth value of a Python object, as \<^verbatim>\<open>if x:\<close> tests it.\<close>

fun py_truthy :: "json \<Rightarrow> bool" where
  "py_truthy JNull = False"
| "py_truthy (JBool b) = b"
| "py_truthy (JInt i) = (i \<noteq> 0)"
| "py_truthy (JFloat f) = (f \<noteq> Finite 0)"
| "py_truthy (JStr s) = (s \<noteq> [])"
| "py_truthy (JArr xs) = (xs \<noteq> [])"
| "py_truthy (JObj kv) = (kv \<noteq> [])"

text \<open>\<^verbatim>\<open>p in s\<close> for two strings: \<open>p\<close> occurs in \<open>s\<close> as a contiguous run.\<close>

fun py_substring :: "string \<Rightarrow> string \<Rightarrow> bool" where
  "py_substring p [] = (p = [])"
| "py_substring p (ch # s) = (prefix p (ch # s) \<or> py_substring p s)"

text \<open>
  \<^verbatim>\<open>key in data\<close> for a string key: a key of a dict, an element of a list, a
  substring of a string; anything else is not iterable.
\<close>

fun py_in :: "string \<Rightarrow> json \<Rightarrow> exn + bool" where
  "py_in k (JObj kv) = Inr (map_of kv k \<noteq> None)"
| "py_in k (JArr xs) = Inr (JStr k \<in> set xs)"
| "py_in k (JStr s) = Inr (py_substring k s)"
| "py_in k _ = Inl TypeError"

text \<open>
  \<^verbatim>\<open>data[key]\<close> for a string key: the dict's entry or KeyError; a list or a
  string takes integer indices only, the other values take none.
\<close>

fun py_getitem :: "json \<Rightarrow> string \<Rightarrow> exn + json" where
  "py_getitem (JObj kv) k = (case map_of kv k of None \<Rightarrow> Inl KeyError | Some v \<Rightarrow> Inr v)"
| "py_getitem _ k = Inl TypeError"

text \<open>\<^verbatim>\<open>data.get(key, default)\<close>: only a dict has the method.\<close>

fun py_get :: "json \<Rightarrow> string \<Rightarrow> json \<Rightarrow> exn + json" where
  "py_get (JObj kv) k dflt = Inr (case map_of kv k of None \<Rightarrow> dflt | Some v \<Rightarrow> v)"
| "py_get _ k dflt = Inl AttributeError"

text \<open>\<^verbatim>\<open>len(x)\<close>: strings, lists and dicts have a length.\<close>

fun py_len :: "json \<Rightarrow> exn + nat" where
  "py_len (JStr s) = Inr (length s)"
| "py_len (JArr xs) = Inr (length xs)"
| "py_len (JObj kv) = Inr (length kv)"
| "py_len _ = Inl TypeError"

text \<open>\<^verbatim>\<open>xs.append(x)\<close>: only a list has the method.\<close>

fun py_append :: "json \<Rightarrow> json \<Rightarrow> exn + json" where
  "py_append (JArr xs) x = Inr (JArr (xs @ [x]))"
| "py_append _ x = Inl AttributeError"

text \<open>
  The library functions the programs call on text, taken as parameters:
  \<^verbatim>\<open>bytes.decode('utf-8')\<close> (\<open>None\<close> is UnicodeDecodeError),
  \<^verbatim>\<open>json.loads\<close> and \<^verbatim>\<open>json.load\<close> (\<open>None\<close> is JSONDecodeError, or a
  file that does not decode), and \<^verbatim>\<open>json.dump\<close> with the options of the client.
\<close>

record pylib =
  utf8_decode :: "string \<Rightarrow> string option"
  json_loads :: "string \<Rightarrow> json option"
  json_dumps :: "json \<Rightarrow> string"

section \<open>The response stream decoder\<close>

text \<open>How the body of a streamed response stops: at its end, or with the connection lost
  (requests raises a RequestException from the iterator).\<close>

datatype ending = Eof | Dropped

text \<open>How the loop over the lines is left: by \<^verbatim>\<open>break\<close> on a record whose
  \<^verbatim>\<open>done\<close> is true, by the end of the lines, or by an exception.\<close>

datatype outcome = Broke | Exhausted | Raised exn

text \<open>The default of \<^verbatim>\<open>data.get('done', False)\<close> (Gemma) and of
  \<^verbatim>\<open>data.get('done')\<close> (Phi).\<close>

fun done_default :: "client \<Rightarrow> json" where
  "done_default Gemma = JBool False"
| "done_default Phi = JNull"

text \<open>
  The body of the \<^verbatim>\<open>try\<close> for one parsed line (gemma 133-136, phi 81-84): the
  values printed, and whether the loop breaks.
\<close>

definition stream_record :: "client \<Rightarrow> json \<Rightarrow> exn + (json list \<times> bool)" where
  "stream_record c data =
     (case py_in ''response'' data of
        Inl x \<Rightarrow> Inl x
      | Inr has \<Rightarrow>
          (case (if has then (case py_getitem data ''response'' of
                                Inl x \<Rightarrow> Inl x | Inr v \<Rightarrow> Inr [v])
                 else Inr []) of
             Inl x \<Rightarrow> Inl x
           | Inr printed \<Rightarrow>
               (case py_get data ''done'' (done_default c) of
                  Inl x \<Rightarrow> Inl x
                | Inr d \<Rightarrow> Inr (printed, py_truthy d))))"

text \<open>
  The loop \<^verbatim>\<open>for line in response.iter_lines()\<close> (gemma 129-138, phi 77-86) over
  the lines the iterator gives, with the way the body stops. The result is the list of
  values printed, in order, and how the loop was left. An empty line is passed over; a
  line that is not UTF-8 raises UnicodeDecodeError, which no handler of the loop catches;
  a line that is not JSON raises JSONDecodeError, which is caught and the loop continues.
\<close>

fun stream_loop :: "client \<Rightarrow> pylib \<Rightarrow> string list \<Rightarrow> ending \<Rightarrow> json list \<times> outcome" where
  "stream_loop c L [] e = ([], case e of Eof \<Rightarrow> Exhausted | Dropped \<Rightarrow> Raised RequestException)"
| "stream_loop c L (line # rest) e =
     (if line = [] then stream_loop c L rest e
      else case utf8_decode L line of
          None \<Rightarrow> ([], Raised UnicodeDecodeError)
        | Some txt \<Rightarrow>
            (case json_loads L txt of
               None \<Rightarrow> stream_loop c L rest e
             | Some data \<Rightarrow>
                 (case stream_record c data of
                    Inl x \<Rightarrow> ([], Raised x)
                  | Inr (printed, brk) \<Rightarrow>
                      if brk then (printed, Broke)
                      else (case stream_loop c L rest e of
                              (later, oc) \<Rightarrow> (printed @ later, oc)))))"

text \<open>
  The source leaves the reassembly of lines from the byte chunks of the response to
  \<^verbatim>\<open>response.iter_lines()\<close> of the requests library, which is not under src/. The
  next four definitions follow section 4.1 of the spec instead: a byte buffer is
  maintained; each incoming chunk is appended to the buffer, which is then scanned for
  line terminators; every complete line is handed on, and the bytes not yet terminated
  by a newline stay in the buffer.
\<close>

text \<open>Modelled from the spec: the line terminator, which \<^verbatim>\<open>iter_lines\<close> looks for
  in the bytes; the spec's records are newline-delimited.\<close>

definition newline :: char where
  "newline = CHR 0x0A"

text \<open>Modelled from the spec: one scan of the buffer, which \<^verbatim>\<open>iter_lines\<close> does on
  each chunk: the complete lines in order, without their newlines, and the unterminated
  rest.\<close>

fun split_lines :: "string \<Rightarrow> string list \<times> string" where
  "split_lines [] = ([], [])"
| "split_lines (b # bs) =
     (case split_lines bs of
        (ls, r) \<Rightarrow>
          if b = newline then ([] # ls, r)
          else (case ls of [] \<Rightarrow> ([], b # r) | l # ls' \<Rightarrow> ((b # l) # ls', r)))"

text \<open>
  Modelled from the spec: \<^verbatim>\<open>iter_lines\<close>, the lines handed on for a list of chunks,
  starting from a buffer. The spec does not say whether bytes left unterminated when the
  body ends are handed on as a last line (the requests library does so); \<open>flush\<close>
  decides it. When the connection is lost the partial line is discarded (section 4.1,
  Failure).
\<close>

fun iter_lines :: "bool \<Rightarrow> ending \<Rightarrow> string \<Rightarrow> string list \<Rightarrow> string list" where
  "iter_lines flush e buf [] = (if flush \<and> e = Eof \<and> buf \<noteq> [] then [buf] else [])"
| "iter_lines flush e buf (chunk # chunks) =
     (case split_lines (buf @ chunk) of
        (ls, r) \<Rightarrow> ls @ iter_lines flush e r chunks)"

text \<open>Modelled from the spec: the decoder of section 4.1 on the chunks of a body, which
  is \<^verbatim>\<open>iter_lines\<close> as above followed by the loop of the source.\<close>

definition decode_stream :: "client \<Rightarrow> pylib \<Rightarrow> bool \<Rightarrow> string list \<Rightarrow> ending \<Rightarrow> json list \<times> outcome" where
  "decode_stream c L flush chunks e = stream_loop c L (iter_lines flush e [] chunks) e"

section \<open>Strings\<close>

text \<open>\<^verbatim>\<open>str.isspace\<close> on one character: the whitespace code points below 256.\<close>

definition py_isspace :: "char \<Rightarrow> bool" where
  "py_isspace ch = (of_char ch \<in> {9, 10, 11, 12, 13, 28, 29, 30, 31, 32, 133, 160 :: nat})"

text \<open>\<^verbatim>\<open>str.lower\<close> on one character: A-Z, and the upper-case letters of Latin-1.\<close>

definition lower_char :: "char \<Rightarrow> char" where
  "lower_char ch =
     (let n = (of_char ch :: nat) in
      if (65 \<le> n \<and> n \<le> 90) \<or> (192 \<le> n \<and> n \<le> 222 \<and> n \<noteq> 215)
      then char_of (n + 32) else ch)"

definition py_lower :: "string \<Rightarrow> string" where
  "py_lower s = map lower_char s"

text \<open>\<^verbatim>\<open>str.strip()\<close>: whitespace removed at both ends.\<close>

definition py_strip :: "string \<Rightarrow> string" where
  "py_strip s = rev (dropWhile py_isspace (rev (dropWhile py_isspace s)))"

text \<open>\<^verbatim>\<open>str.split()\<close>: the maximal runs of characters that are not whitespace;
  the first argument is the word being read.\<close>

fun split_words :: "string \<Rightarrow> string \<Rightarrow> string list" where
  "split_words cur [] = (if cur = [] then [] else [cur])"
| "split_words cur (ch # s) =
     (if py_isspace ch then (if cur = [] then split_words [] s else cur # split_words [] s)
      else split_words (cur @ [ch]) s)"

definition py_split :: "string \<Rightarrow> string list" where
  "py_split s = split_words [] s"

section \<open>The chat object and its surroundings\<close>

text \<open>
  The fields of GemmaChat and PhiChat. \<open>session_start\<close> is a datetime of which the
  programs use two renderings only: \<^verbatim>\<open>isoformat()\<close> and
  \<^verbatim>\<open>strftime('%Y%m%d_%H%M%S')\<close>. The conversation history is whatever Python object
  the field holds: a list that the turns append to, or what the last load put there.
\<close>

record chat =
  host :: string
  port :: int
  model :: string
  conversation_history :: json
  session_start_iso :: string
  session_start_stamp :: string

text \<open>The files that can be opened for reading, by path, with their text.\<close>

type_synonym disk = "string \<Rightarrow> string option"

text \<open>The state of the turn loop: the object, the local \<^verbatim>\<open>streaming_mode\<close>, and the
  files.\<close>

record session =
  chat :: chat
  streaming_mode :: bool
  files :: disk

text \<open>What a call of requests gives: an exception (a timeout, or another
  RequestException), or a response with its status code and its body.\<close>

datatype 'a http = Failed | TimedOut | Response nat 'a

text \<open>
  What the surroundings answer during one turn: the model names in the body of
  \<^verbatim>\<open>GET /api/tags\<close>; the body of the complete \<^verbatim>\<open>POST /api/generate\<close> as
  \<^verbatim>\<open>response.json()\<close> gives it; for the streamed one, the lines that
  \<^verbatim>\<open>response.iter_lines()\<close> gives and how the body stops; the two readings of
  \<^verbatim>\<open>datetime.now().isoformat()\<close>, for the user message and for the reply; and the
  paths that can be opened for writing.
\<close>

record world =
  tags_reply :: "string list http"
  generate_reply :: "json http"
  stream_reply :: "(string list \<times> ending) http"
  now_user :: string
  now_reply :: string
  writable :: "string \<Rightarrow> bool"

text \<open>What is printed: one constructor for each call of \<^verbatim>\<open>print_colored\<close>,
  \<^verbatim>\<open>cprint\<close> or \<^verbatim>\<open>print\<close>, with the values its text is formatted from.\<close>

datatype colour = UserColour | ModelColour

datatype out =
    Goodbye
  | HelpText
  | ModelList "string list"
  | NoModels
  | SwitchedModel string
  | ModelNotFound string
  | SavedTo string
  | SaveError
  | Loaded nat
  | LoadError
  | HistoryCleared
  | StatsText nat string string int
  | StreamingToggled bool
  | NoHistory
  | HistoryHeader
  | HistoryLine nat json json colour
  | HistoryFooter
  | UnknownCommand string
  | HelpHint
  | Thinking
  | ReplyText json
  | NoReply
  | ResponseTime
  | HttpError nat
  | RequestError
  | TimeoutError
  | StreamPrefix
  | Fragment json
  | StreamNewline

text \<open>How the body of the turn loop is left: on to the next input, by \<^verbatim>\<open>break\<close>,
  or by an exception that no handler inside the body catches.\<close>

datatype control = Continue | Quit | Escaped exn

section \<open>The service client\<close>

text \<open>\<^verbatim>\<open>get_available_models\<close> (gemma 59-68), \<^verbatim>\<open>get_models\<close> (phi 41-49).\<close>

fun get_available_models :: "string list http \<Rightarrow> string list" where
  "get_available_models (Response status names) = (if status = 200 then names else [])"
| "get_available_models _ = []"

text \<open>
  \<^verbatim>\<open>send_message\<close> (gemma 70-107, phi 51-63): what is printed, and the value
  returned (\<^verbatim>\<open>None\<close> is \<open>JNull\<close>) or the exception raised.
\<close>

fun send_message :: "client \<Rightarrow> json http \<Rightarrow> out list \<times> (exn + json)" where
  "send_message c (Response status body) =
     (if status = 200 then ([], py_get body ''response'' (JStr []))
      else ([HttpError status], Inr JNull))"
| "send_message Gemma TimedOut = ([TimeoutError], Inr JNull)"
| "send_message Phi TimedOut = ([RequestError], Inr JNull)"
| "send_message c Failed = ([RequestError], Inr JNull)"

text \<open>
  The first print of \<^verbatim>\<open>stream_message\<close> after a 200. Gemma (line 127) calls
  \<^verbatim>\<open>self.print_colored("Gemma: ", 'gemma', end='')\<close>, and \<^verbatim>\<open>print_colored\<close> (line 45)
  takes no \<^verbatim>\<open>end\<close>: the call raises TypeError. Phi's \<^verbatim>\<open>cprint\<close> takes it.
\<close>

fun stream_prefix :: "client \<Rightarrow> exn + out list" where
  "stream_prefix Gemma = Inl TypeError"
| "stream_prefix Phi = Inr [StreamPrefix]"

text \<open>
  \<^verbatim>\<open>stream_message\<close> (gemma 109-144, phi 65-89): what is printed, and the exception
  that leaves the function, if any. A RequestException is caught and reported.
\<close>

fun stream_message :: "client \<Rightarrow> pylib \<Rightarrow> (string list \<times> ending) http \<Rightarrow> out list \<times> exn option" where
  "stream_message c L (Response status (lines, e)) =
     (if status = 200 then
        (case stream_prefix c of
           Inl x \<Rightarrow> ([], Some x)
         | Inr pre \<Rightarrow>
             (case stream_loop c L lines e of
                (printed, oc) \<Rightarrow>
                  (case oc of
                     Raised x \<Rightarrow>
                       if x = RequestException then (pre @ map Fragment printed @ [RequestError], None)
                       else (pre @ map Fragment printed, Some x)
                   | _ \<Rightarrow> (pre @ map Fragment printed @ [StreamNewline], None))))
      else ([HttpError status], None))"
| "stream_message c L _ = ([RequestError], None)"

section \<open>The conversation store\<close>

text \<open>The file name generated when none is given (gemma 149-150, phi 93).\<close>

fun default_filename :: "client \<Rightarrow> chat \<Rightarrow> string" where
  "default_filename Gemma s = ''gemma_conversation_'' @ session_start_stamp s @ ''.json''"
| "default_filename Phi s = ''phi_conversation_'' @ session_start_stamp s @ ''.json''"

text \<open>The document written (gemma 152-157, phi 96-101).\<close>

definition conversation_data :: "chat \<Rightarrow> json" where
  "conversation_data s =
     JObj [(''session_start'', JStr (session_start_iso s)),
           (''model'', JStr (model s)),
           (''host'', JStr (host s)),
           (''conversation'', conversation_history s)]"

text \<open>
  \<^verbatim>\<open>save_conversation\<close> (gemma 146-164), \<^verbatim>\<open>save\<close> (phi 91-104): an absent or
  empty file name is replaced by the generated one; a path that cannot be opened for
  writing is reported and nothing is written.
\<close>

definition save_conversation ::
  "client \<Rightarrow> pylib \<Rightarrow> (string \<Rightarrow> bool) \<Rightarrow> chat \<Rightarrow> disk \<Rightarrow> string option \<Rightarrow> disk \<times> out list" where
  "save_conversation c L can_open s d filename =
     (let fname = (case filename of
                     None \<Rightarrow> default_filename c s
                   | Some f \<Rightarrow> if f = [] then default_filename c s else f)
      in if can_open fname then (d(fname \<mapsto> json_dumps L (conversation_data s)), [SavedTo fname])
         else (d, [SaveError]))"

text \<open>\<^verbatim>\<open>with open(filename) as f: data = json.load(f)\<close>: \<open>None\<close> when either
  raises.\<close>

definition json_load :: "pylib \<Rightarrow> disk \<Rightarrow> string \<Rightarrow> json option" where
  "json_load L d filename = (case d filename of None \<Rightarrow> None | Some txt \<Rightarrow> json_loads L txt)"

text \<open>
  \<^verbatim>\<open>load_conversation\<close> (gemma 166-177), \<^verbatim>\<open>load\<close> (phi 106-113). Every exception
  is caught and reported. The history is assigned before \<^verbatim>\<open>len\<close> is taken for the
  message.
\<close>

definition load_conversation :: "pylib \<Rightarrow> disk \<Rightarrow> chat \<Rightarrow> string \<Rightarrow> chat \<times> out list" where
  "load_conversation L d s filename =
     (case json_load L d filename of
        None \<Rightarrow> (s, [LoadError])
      | Some data \<Rightarrow>
          (case py_get data ''conversation'' (JArr []) of
             Inl x \<Rightarrow> (s, [LoadError])
           | Inr conv \<Rightarrow>
               (case py_len conv of
                  Inl x \<Rightarrow> (s\<lparr>conversation_history := conv\<rparr>, [LoadError])
                | Inr n \<Rightarrow> (s\<lparr>conversation_history := conv\<rparr>, [Loaded n]))))"

text \<open>\<^verbatim>\<open>show_stats\<close> (gemma 198-209), \<^verbatim>\<open>stats\<close> (phi 115-120).\<close>

definition show_stats :: "chat \<Rightarrow> out list \<times> exn option" where
  "show_stats s =
     (case py_len (conversation_history s) of
        Inl x \<Rightarrow> ([], Some x)
      | Inr n \<Rightarrow> ([StatsText n (model s) (host s) (port s)], None))"

text \<open>Iteration over a Python object, as \<^verbatim>\<open>enumerate\<close> does it: the elements of a
  list, the characters of a string, the keys of a dict.\<close>

fun py_iter :: "json \<Rightarrow> exn + json list" where
  "py_iter (JArr xs) = Inr xs"
| "py_iter (JStr s) = Inr (map (\<lambda>ch. JStr [ch]) s)"
| "py_iter (JObj kv) = Inr (map (\<lambda>p. JStr (fst p)) kv)"
| "py_iter _ = Inl TypeError"

text \<open>\<^verbatim>\<open>x[:n]\<close>: strings and lists are sliced; a dict has no such key (KeyError
  since Python 3.12, TypeError before); the other values take no subscript.\<close>

fun py_slice :: "json \<Rightarrow> nat \<Rightarrow> exn + json" where
  "py_slice (JStr s) n = Inr (JStr (take n s))"
| "py_slice (JArr xs) n = Inr (JArr (take n xs))"
| "py_slice (JObj kv) n = Inl KeyError"
| "py_slice _ n = Inl TypeError"

text \<open>\<^verbatim>\<open>x + t\<close> for a string \<open>t\<close>: only a string can be extended by a string.\<close>

fun py_concat :: "json \<Rightarrow> string \<Rightarrow> exn + json" where
  "py_concat (JStr s) t = Inr (JStr (s @ t))"
| "py_concat _ t = Inl TypeError"

text \<open>
  One pass of the loop of \<^verbatim>\<open>show_history\<close> (gemma 218-222) and of
  \<^verbatim>\<open>history\<close> (phi 127-129): the line printed for entry \<open>i\<close>, or the exception.
  Gemma shows the content as it is when its length is at most 100, and its first 100
  characters followed by three dots otherwise; Phi does the same with 80.
\<close>

fun history_entry :: "client \<Rightarrow> nat \<Rightarrow> json \<Rightarrow> exn + out" where
  "history_entry Gemma i msg =
     (case py_getitem msg ''role'' of
        Inl x \<Rightarrow> Inl x
      | Inr role \<Rightarrow>
          (case py_getitem msg ''content'' of
             Inl x \<Rightarrow> Inl x
           | Inr content \<Rightarrow>
               (case py_len content of
                  Inl x \<Rightarrow> Inl x
                | Inr n \<Rightarrow>
                    (case (if n > 100
                           then (case py_slice content 100 of
                                   Inl x \<Rightarrow> Inl x | Inr p \<Rightarrow> py_concat p ''...'')
                           else Inr content) of
                       Inl x \<Rightarrow> Inl x
                     | Inr shown \<Rightarrow>
                         Inr (HistoryLine i role shown
                                (if role = JStr ''user'' then UserColour else ModelColour))))))"
| "history_entry Phi i msg =
     (case py_getitem msg ''content'' of
        Inl x \<Rightarrow> Inl x
      | Inr content \<Rightarrow>
          (case py_slice content 80 of
             Inl x \<Rightarrow> Inl x
           | Inr p \<Rightarrow>
               (case py_len content of
                  Inl x \<Rightarrow> Inl x
                | Inr n \<Rightarrow>
                    (case py_concat p (if n > 80 then ''...'' else []) of
                       Inl x \<Rightarrow> Inl x
                     | Inr preview \<Rightarrow>
                         (case py_getitem msg ''role'' of
                            Inl x \<Rightarrow> Inl x
                          | Inr role \<Rightarrow>
                              Inr (HistoryLine i role preview
                                     (if role = JStr ''assistant'' then ModelColour
                                      else UserColour)))))))"

text \<open>The loop over the entries, numbered from \<open>i\<close>: the lines printed, and the exception
  that stopped it, if any.\<close>

fun history_lines :: "client \<Rightarrow> nat \<Rightarrow> json list \<Rightarrow> out list \<times> exn option" where
  "history_lines c i [] = ([], None)"
| "history_lines c i (msg # rest) =
     (case history_entry c i msg of
        Inl x \<Rightarrow> ([], Some x)
      | Inr entry \<Rightarrow> (case history_lines c (Suc i) rest of (lns, r) \<Rightarrow> (entry # lns, r)))"

text \<open>\<^verbatim>\<open>show_history\<close> (gemma 211-223), \<^verbatim>\<open>history\<close> (phi 122-130).\<close>

definition show_history :: "client \<Rightarrow> chat \<Rightarrow> out list \<times> exn option" where
  "show_history c s =
     (if \<not> py_truthy (conversation_history s) then ([NoHistory], None)
      else case py_iter (conversation_history s) of
          Inl x \<Rightarrow> ([HistoryHeader], Some x)
        | Inr msgs \<Rightarrow>
            (case history_lines c 1 msgs of
               (lns, None) \<Rightarrow> (HistoryHeader # lns @ [HistoryFooter], None)
             | (lns, Some x) \<Rightarrow> (HistoryHeader # lns, Some x)))"

section \<open>The turn loop\<close>

text \<open>
  The words of a command line. Gemma (line 274) lowers the whole line and splits it;
  Phi (lines 171-172) splits the line and lowers the first word only.
\<close>

fun command_words :: "client \<Rightarrow> string \<Rightarrow> string list" where
  "command_words Gemma u = py_split (py_lower u)"
| "command_words Phi u = (case py_split u of [] \<Rightarrow> [] | p # ps \<Rightarrow> py_lower p # ps)"

text \<open>What is printed for a command that is not known (gemma 312-313, phi 203).\<close>

fun unknown_command :: "client \<Rightarrow> string \<Rightarrow> out list" where
  "unknown_command Gemma cmd = [UnknownCommand cmd, HelpHint]"
| "unknown_command Phi cmd = [UnknownCommand cmd]"

text \<open>
  The chain of \<^verbatim>\<open>if\<close>/\<^verbatim>\<open>elif\<close> over the command (gemma 276-314, phi 173-204):
  the new state, what is printed, and how the loop goes on. With no word at all
  \<^verbatim>\<open>command[0]\<close> raises IndexError.
\<close>

fun run_command ::
  "client \<Rightarrow> pylib \<Rightarrow> world \<Rightarrow> session \<Rightarrow> string list \<Rightarrow> session \<times> out list \<times> control" where
  "run_command c L w st [] = (st, [], Escaped IndexError)"
| "run_command c L w st (cmd # args) =
     (if cmd \<in> {''/quit'', ''/exit'', ''/q''} then (st, [Goodbye], Quit)
      else if cmd \<in> {''/help'', ''/h''} then (st, [HelpText], Continue)
      else if cmd = ''/models'' then
        (case get_available_models (tags_reply w) of
           [] \<Rightarrow> (st, [NoModels], Continue)
         | m # ms \<Rightarrow> (st, [ModelList (m # ms)], Continue))
      else if cmd = ''/model'' \<and> args \<noteq> [] then
        (let new_model = hd args in
         if new_model \<in> set (get_available_models (tags_reply w))
         then (st\<lparr>chat := (chat st)\<lparr>model := new_model\<rparr>\<rparr>, [SwitchedModel new_model], Continue)
         else (st, [ModelNotFound new_model], Continue))
      else if cmd = ''/save'' then
        (case save_conversation c L (writable w) (chat st) (files st)
                (case args of [] \<Rightarrow> None | a # _ \<Rightarrow> Some a) of
           (d, printed) \<Rightarrow> (st\<lparr>files := d\<rparr>, printed, Continue))
      else if cmd = ''/load'' \<and> args \<noteq> [] then
        (case load_conversation L (files st) (chat st) (hd args) of
           (s, printed) \<Rightarrow> (st\<lparr>chat := s\<rparr>, printed, Continue))
      else if cmd = ''/clear'' then
        (st\<lparr>chat := (chat st)\<lparr>conversation_history := JArr []\<rparr>\<rparr>, [HistoryCleared], Continue)
      else if cmd = ''/stats'' then
        (case show_stats (chat st) of
           (printed, None) \<Rightarrow> (st, printed, Continue)
         | (printed, Some x) \<Rightarrow> (st, printed, Escaped x))
      else if cmd = ''/stream'' then
        (st\<lparr>streaming_mode := \<not> streaming_mode st\<rparr>,
         [StreamingToggled (\<not> streaming_mode st)], Continue)
      else if cmd = ''/history'' then
        (case show_history c (chat st) of
           (printed, None) \<Rightarrow> (st, printed, Continue)
         | (printed, Some x) \<Rightarrow> (st, printed, Escaped x))
      else (st, unknown_command c cmd, Continue))"

text \<open>The dict appended to the history for a message (gemma 317-321 and 339-343,
  phi 207-211 and 222-226).\<close>

definition message :: "string \<Rightarrow> json \<Rightarrow> string \<Rightarrow> json" where
  "message role content stamp =
     JObj [(''role'', JStr role), (''content'', content), (''timestamp'', JStr stamp)]"

text \<open>
  A line that is not a command (gemma 316-347, phi 206-231): the user message is
  appended; in streaming mode the reply is streamed to the terminal and nothing more is
  appended; otherwise the reply is appended when it is true as a Python value, and
  reported as missing when it is not.
\<close>

definition chat_turn ::
  "client \<Rightarrow> pylib \<Rightarrow> world \<Rightarrow> session \<Rightarrow> string \<Rightarrow> session \<times> out list \<times> control" where
  "chat_turn c L w st user_input =
     (case py_append (conversation_history (chat st))
             (message ''user'' (JStr user_input) (now_user w)) of
        Inl x \<Rightarrow> (st, [], Escaped x)
      | Inr h1 \<Rightarrow>
          (let st1 = st\<lparr>chat := (chat st)\<lparr>conversation_history := h1\<rparr>\<rparr> in
           if streaming_mode st then
             (case stream_message c L (stream_reply w) of
                (printed, Some x) \<Rightarrow> (st1, Thinking # printed, Escaped x)
              | (printed, None) \<Rightarrow> (st1, Thinking # printed @ [ResponseTime], Continue))
           else
             (case send_message c (generate_reply w) of
                (printed, Inl x) \<Rightarrow> (st1, Thinking # printed, Escaped x)
              | (printed, Inr response) \<Rightarrow>
                  if py_truthy response then
                    (case py_append h1 (message ''assistant'' response (now_reply w)) of
                       Inl x \<Rightarrow> (st1, Thinking # printed @ [ReplyText response], Escaped x)
                     | Inr h2 \<Rightarrow>
                         (st\<lparr>chat := (chat st)\<lparr>conversation_history := h2\<rparr>\<rparr>,
                          Thinking # printed @ [ReplyText response, ResponseTime], Continue))
                  else (st1, Thinking # printed @ [NoReply], Continue))))"

text \<open>
  The body of the loop for one line of input (gemma 264-347, phi 167-231): the line is
  stripped; an empty line is passed over; a line that starts with a slash is a command;
  any other line is sent to the model.
\<close>

definition turn ::
  "client \<Rightarrow> pylib \<Rightarrow> world \<Rightarrow> session \<Rightarrow> string \<Rightarrow> session \<times> out list \<times> control" where
  "turn c L w st raw =
     (let user_input = py_strip raw in
      if user_input = [] then (st, [], Continue)
      else if prefix ''/'' user_input then run_command c L w st (command_words c user_input)
      else chat_turn c L w st user_input)"

section \<open>Notions used in the statements\<close>

text \<open>The timestamp of a log entry: the string under \<^verbatim>\<open>'timestamp'\<close> of a dict.\<close>

fun entry_timestamp :: "json \<Rightarrow> string option" where
  "entry_timestamp (JObj kv) =
     (case map_of kv ''timestamp'' of Some (JStr t) \<Rightarrow> Some t | _ \<Rightarrow> None)"
| "entry_timestamp _ = None"



text \<open>The number of characters of a content that the history shows before the dots
  (gemma 220, phi 128).\<close>

fun preview_length :: "client \<Rightarrow> nat" where
  "preview_length Gemma = 100"
| "preview_length Phi = 80"

text \<open>An entry that the history can show: a dict with a role and a string content.\<close>

fun text_entry :: "json \<Rightarrow> bool" where
  "text_entry (JObj kv) =
     (case map_of kv ''role'' of
        None \<Rightarrow> False
      | Some r \<Rightarrow> (case map_of kv ''content'' of Some (JStr t) \<Rightarrow> True | _ \<Rightarrow> False))"
| "text_entry _ = False"

text \<open>A content as the amended claim C9 describes its preview: whole when it is not longer
  than the preview length, and otherwise cut to that length and followed by three dots.\<close>

fun shown_content :: "client \<Rightarrow> string \<Rightarrow> string" where
  "shown_content c t =
     (if length t \<le> preview_length c then t else take (preview_length c) t @ ''...'')"

section \<open>Sample inputs\<close>

text \<open>
  A sample of the library for the concrete runs below: the texts that occur in them with
  the value \<^verbatim>\<open>json.loads\<close> gives for each (any other text is refused), the
  decoding of ASCII bytes, and \<^verbatim>\<open>json.dump\<close> for the one document that is saved.
\<close>

definition sample_document :: json where
  "sample_document =
     JObj [(''session_start'', JStr ''2024-05-01T09:00:00''),
           (''model'', JStr ''gemma2:9b''),
           (''host'', JStr ''localhost''),
           (''conversation'',
            JArr [JObj [(''role'', JStr ''user''), (''content'', JStr ''Hello''),
                        (''timestamp'', JStr ''2024-05-01T09:00:05'')],
                  JObj [(''role'', JStr ''assistant''), (''content'', JStr ''Hi there''),
                        (''timestamp'', JStr ''2024-05-01T09:00:07'')]])]"

definition sample_document_text :: string where
  "sample_document_text =
     ''{\"session_start\": \"2024-05-01T09:00:00\", \"model\": \"gemma2:9b\", \"host\": \"localhost\", \"conversation\": [{\"role\": \"user\", \"content\": \"Hello\", \"timestamp\": \"2024-05-01T09:00:05\"}, {\"role\": \"assistant\", \"content\": \"Hi there\", \"timestamp\": \"2024-05-01T09:00:07\"}]}''"

definition sample_texts :: "(string \<times> json) list" where
  "sample_texts =
     [(''{\"response\":\"He\"}'', JObj [(''response'', JStr ''He'')]),
      (''{\"response\":\"llo\"}'', JObj [(''response'', JStr ''llo'')]),
      (''{\"done\":true}'', JObj [(''done'', JBool True)]),
      (''{}'', JObj []),
      (''null'', JNull),
      (''{\"conversation\": \"oops\"}'', JObj [(''conversation'', JStr ''oops'')]),
      (''{\"conversation\": 5}'', JObj [(''conversation'', JInt 5)]),
      (''{\"conversation\": [{\"role\": \"user\", \"content\": \"b\", \"timestamp\": \"2024-05-02T09:00:00\"}, {\"role\": \"user\", \"content\": \"a\", \"timestamp\": \"2024-05-01T09:00:00\"}]}'',
       JObj [(''conversation'',
              JArr [JObj [(''role'', JStr ''user''), (''content'', JStr ''b''),
                          (''timestamp'', JStr ''2024-05-02T09:00:00'')],
                    JObj [(''role'', JStr ''user''), (''content'', JStr ''a''),
                          (''timestamp'', JStr ''2024-05-01T09:00:00'')]])]),
      (sample_document_text, sample_document)]"

definition sample_lib :: pylib where
  "sample_lib =
     \<lparr>utf8_decode = (\<lambda>b. if list_all (\<lambda>ch. of_char ch < (128::nat)) b then Some b else None),
      json_loads = map_of sample_texts,
      json_dumps = (\<lambda>v. if v = sample_document then sample_document_text else [])\<rparr>"

definition sample_chat :: chat where
  "sample_chat =
     \<lparr>host = ''localhost'', port = 11434, model = ''gemma2:9b'', conversation_history = JArr [],
      session_start_iso = ''2024-05-01T09:00:00'', session_start_stamp = ''20240501_090000''\<rparr>"

definition sample_world :: world where
  "sample_world =
     \<lparr>tags_reply = Response 200 [''gemma2:9b'', ''llama3:8b-instruct-q4_K_M'', ''phi4-mini:3.8b''],
      generate_reply = Response 200 (JObj [(''response'', JStr [])]),
      stream_reply =
        Response 200
          ([''{\"response\":\"He\"}'', ''{\"response\":\"llo\"}'', ''{\"done\":true}''], Eof),
      now_user = ''2024-05-01T09:00:05'',
      now_reply = ''2024-05-01T09:00:07'',
      writable = (\<lambda>p. True)\<rparr>"

definition sample_session :: "bool \<Rightarrow> session" where
  "sample_session streaming =
     \<lparr>chat = sample_chat, streaming_mode = streaming, files = Map.empty\<rparr>"

text \<open>The chat after the user said Hello and the model answered Hi there.\<close>

definition sample_saved_chat :: chat where
  "sample_saved_chat =
     sample_chat\<lparr>conversation_history :=
       JArr [message ''user'' (JStr ''Hello'') ''2024-05-01T09:00:05'',
             message ''assistant'' (JStr ''Hi there'') ''2024-05-01T09:00:07'']\<rparr>"


section \<open>The decoder: chunk boundaries\<close>

lemma split_lines_append:
  "split_lines (xs @ ys) =
     (case split_lines xs of (l1, r1) \<Rightarrow>
        (case split_lines (r1 @ ys) of (l2, r2) \<Rightarrow> (l1 @ l2, r2)))"
proof (induction xs)
  case Nil
  show ?case by (simp split: prod.splits)
next
  case (Cons b xs)
  obtain l1 r1 where a: "split_lines xs = (l1, r1)" by (cases "split_lines xs")
  obtain l2 r2 where b: "split_lines (r1 @ ys) = (l2, r2)" by (cases "split_lines (r1 @ ys)")
  from Cons a b have ih: "split_lines (xs @ ys) = (l1 @ l2, r2)" by simp
  show ?case
  proof (cases "b = newline")
    case True
    then show ?thesis using a b ih by simp
  next
    case False
    then show ?thesis using a b ih by (cases l1) (simp_all split: list.splits)
  qed
qed

lemma split_lines_rest: "newline \<notin> set (snd (split_lines xs))"
  by (induction xs) (auto split: prod.splits list.splits)

lemma split_lines_no_newline: "newline \<notin> set xs \<Longrightarrow> split_lines xs = ([], xs)"
  by (induction xs) auto

lemma iter_lines_concat:
  "newline \<notin> set buf \<Longrightarrow>
   iter_lines flush e buf chunks = iter_lines flush e buf [concat chunks]"
proof (induction chunks arbitrary: buf)
  case Nil
  then show ?case by (simp add: split_lines_no_newline)
next
  case (Cons ch chunks)
  obtain l1 r1 where a: "split_lines (buf @ ch) = (l1, r1)" by (cases "split_lines (buf @ ch)")
  have r1: "newline \<notin> set r1" using split_lines_rest [of "buf @ ch"] a by simp
  obtain l2 r2 where b: "split_lines (r1 @ concat chunks) = (l2, r2)"
    by (cases "split_lines (r1 @ concat chunks)")
  have "split_lines ((buf @ ch) @ concat chunks) = (l1 @ l2, r2)"
    using a b by (simp only: split_lines_append [of "buf @ ch"] prod.case)
  then have rhs:
    "iter_lines flush e buf [concat (ch # chunks)] = l1 @ l2 @ iter_lines flush e r2 []"
    by simp
  have "iter_lines flush e buf (ch # chunks) = l1 @ iter_lines flush e r1 chunks"
    using a by simp
  also have "iter_lines flush e r1 chunks = iter_lines flush e r1 [concat chunks]"
    using Cons.IH [OF r1] .
  also have "\<dots> = l2 @ iter_lines flush e r2 []" using b by simp
  finally show ?case using rhs by simp
qed

text \<open>
  C3. However the bytes of a response are cut into chunks, also in the middle of a
  record, the decoder prints the same fragments and leaves its loop the same way as when
  the same bytes arrive as one chunk. This holds whether or not an unterminated last
  line is handed on, and for a body that ends as for one that is cut off.
\<close>

theorem decode_stream_chunking:
  "decode_stream c L flush chunks e = decode_stream c L flush [concat chunks] e"
  unfolding decode_stream_def using iter_lines_concat [of "[]" flush e chunks] by simp

text \<open>The scenario of the spec: a first record whole, a second cut in the middle of its
  key, and the done record in the same chunk as the rest of the second.\<close>

lemma decode_stream_scenario:
  "decode_stream Phi sample_lib True
     [''{\"response\":\"He\"}\<newline>'', ''{\"respons'',
      ''e\":\"llo\"}\<newline>{\"done\":true}\<newline>''] Eof =
     ([JStr ''He'', JStr ''llo''], Broke) \<and>
   decode_stream Phi sample_lib False
     [''{\"response\":\"He\"}\<newline>'', ''{\"respons'',
      ''e\":\"llo\"}\<newline>{\"done\":true}\<newline>''] Eof =
     ([JStr ''He'', JStr ''llo''], Broke)"
  by code_simp

section \<open>The decoder: the done record\<close>

lemma stream_loop_append:
  "stream_loop c L pre Eof = (fs, Exhausted) \<Longrightarrow>
   stream_loop c L (pre @ rest) e =
     (case stream_loop c L rest e of (gs, oc) \<Rightarrow> (fs @ gs, oc))"
proof (induction pre arbitrary: fs)
  case Nil
  then show ?case by (simp split: prod.splits)
next
  case (Cons line pre)
  then show ?case
    by (auto split: if_splits option.splits sum.splits prod.splits)
qed

lemma stream_record_done:
  "map_of kv ''done'' = Some (JBool True) \<Longrightarrow>
   stream_record c (JObj kv) =
     Inr (case map_of kv ''response'' of None \<Rightarrow> [] | Some v \<Rightarrow> [v], True)"
  by (simp add: stream_record_def split: option.splits)

lemma stream_record_client: "stream_record c data = stream_record Phi data"
  by (cases c; cases data) (simp_all add: stream_record_def split: option.splits sum.splits)

lemma stream_loop_Gemma: "stream_loop Gemma L ls e = stream_loop Phi L ls e"
  by (induction ls)
    (auto simp: stream_record_client [of Gemma] split: option.splits sum.splits prod.splits)

lemma stream_loop_client: "stream_loop c L ls e = stream_loop Phi L ls e"
  by (cases c) (simp_all add: stream_loop_Gemma)

text \<open>
  C5. When the lines before it are consumed without leaving the loop and a line parses
  to a record whose \<^verbatim>\<open>done\<close> is true, the loop is left by \<^verbatim>\<open>break\<close> at that
  record: what was printed is what the earlier lines printed, followed by the fragment
  of the done record itself if it has one. Nothing of the lines after it is printed,
  whatever they are and however the body stops afterwards, and Phi's
  \<^verbatim>\<open>stream_message\<close> ends the line and returns without an exception.
\<close>

theorem done_record_ends_stream:
  assumes "stream_loop c L before Eof = (fs, Exhausted)"
    and "line \<noteq> []"
    and "utf8_decode L line = Some txt"
    and "json_loads L txt = Some (JObj kv)"
    and "map_of kv ''done'' = Some (JBool True)"
  shows "stream_loop c L (before @ line # after) e =
           (fs @ (case map_of kv ''response'' of None \<Rightarrow> [] | Some v \<Rightarrow> [v]), Broke)
       \<and> stream_message Phi L (Response 200 (before @ line # after, e)) =
           (StreamPrefix #
              map Fragment (fs @ (case map_of kv ''response'' of None \<Rightarrow> [] | Some v \<Rightarrow> [v])) @
              [StreamNewline], None)"
proof -
  have a: "stream_loop c L (before @ line # after) e =
           (fs @ (case map_of kv ''response'' of None \<Rightarrow> [] | Some v \<Rightarrow> [v]), Broke)"
    using assms by (simp add: stream_loop_append stream_record_done)
  then have "stream_loop Phi L (before @ line # after) e =
           (fs @ (case map_of kv ''response'' of None \<Rightarrow> [] | Some v \<Rightarrow> [v]), Broke)"
    by (simp only: stream_loop_client [of c])
  then have "stream_message Phi L (Response 200 (before @ line # after, e)) =
           (StreamPrefix #
              map Fragment (fs @ (case map_of kv ''response'' of None \<Rightarrow> [] | Some v \<Rightarrow> [v])) @
              [StreamNewline], None)"
    by simp
  with a show ?thesis by simp
qed

theorem done_record_ends_stream_witness:
  "stream_loop Phi sample_lib [''{\"response\":\"He\"}''] Eof = ([JStr ''He''], Exhausted) \<and>
   stream_loop Phi sample_lib
     ([''{\"response\":\"He\"}''] @ ''{\"done\":true}'' # [''{\"response\":\"llo\"}'']) Dropped =
     ([JStr ''He''], Broke) \<and>
   stream_message Phi sample_lib
     (Response 200
        ([''{\"response\":\"He\"}''] @ ''{\"done\":true}'' # [''{\"response\":\"llo\"}''], Dropped)) =
     ([StreamPrefix, Fragment (JStr ''He''), StreamNewline], None)"
proof -
  have h1: "stream_loop Phi sample_lib [''{\"response\":\"He\"}''] Eof = ([JStr ''He''], Exhausted)"
    by code_simp
  have h2: "''{\"done\":true}'' \<noteq> []" by simp
  have h3: "utf8_decode sample_lib ''{\"done\":true}'' = Some ''{\"done\":true}''" by code_simp
  have h4: "json_loads sample_lib ''{\"done\":true}'' = Some (JObj [(''done'', JBool True)])"
    by code_simp
  have h5: "map_of [(''done'', JBool True)] ''done'' = Some (JBool True)" by simp
  from done_record_ends_stream [OF h1 h2 h3 h4 h5, of "[''{\"response\":\"llo\"}'']" Dropped] h1
  show ?thesis by simp
qed

section \<open>Turns that query the model\<close>

lemma turn_chat_turn:
  "py_strip raw \<noteq> [] \<Longrightarrow> \<not> prefix ''/'' (py_strip raw) \<Longrightarrow>
   turn c L w st raw = chat_turn c L w st (py_strip raw)"
  by (simp add: turn_def Let_def)

text \<open>
  C1, as amended. In streaming mode a line that is not a command appends the user message
  and nothing else: whether the stream ends with a done record, ends without one, is cut
  off, is refused by the service or raises an exception, the history after the turn is
  the history before it followed by the user message, which stays without a reply.
\<close>

theorem streaming_turn_appends_no_reply:
  assumes "streaming_mode st"
    and "conversation_history (chat st) = JArr entries"
    and "py_strip raw \<noteq> []"
    and "\<not> prefix ''/'' (py_strip raw)"
  shows "conversation_history (chat (fst (turn c L w st raw))) =
           JArr (entries @ [message ''user'' (JStr (py_strip raw)) (now_user w)])"
proof -
  obtain printed r where sm: "stream_message c L (stream_reply w) = (printed, r)"
    by (cases "stream_message c L (stream_reply w)")
  show ?thesis
    using assms sm by (cases r) (simp_all add: turn_chat_turn chat_turn_def Let_def)
qed

theorem streaming_turn_appends_no_reply_witness:
  "streaming_mode (sample_session True) \<and>
   conversation_history (chat (sample_session True)) = JArr [] \<and>
   py_strip ''Hello'' \<noteq> [] \<and>
   \<not> prefix ''/'' (py_strip ''Hello'') \<and>
   conversation_history (chat (fst (turn Gemma sample_lib sample_world (sample_session True) ''Hello''))) =
     JArr ([] @ [message ''user'' (JStr (py_strip ''Hello'')) (now_user sample_world)])"
proof -
  have h1: "streaming_mode (sample_session True)" by (simp add: sample_session_def)
  have h2: "conversation_history (chat (sample_session True)) = JArr []"
    by (simp add: sample_session_def sample_chat_def)
  have h3: "py_strip ''Hello'' \<noteq> []" by code_simp
  have h4: "\<not> prefix ''/'' (py_strip ''Hello'')" by code_simp
  from streaming_turn_appends_no_reply [OF h1 h2 h3 h4, of Gemma sample_lib sample_world]
    h1 h2 h3 h4
  show ?thesis by simp
qed

text \<open>
  The claim as stated fails. Phi in streaming mode, the user types Hello and the service
  streams the fragments He and llo and then a done record: the loop is left by
  \<^verbatim>\<open>break\<close>, both fragments are printed, the turn goes on normally, and the history
  holds the user message only; no assistant message with the content Hello is appended.
\<close>

theorem streaming_turn_counterexample:
  "stream_loop Phi sample_lib
     [''{\"response\":\"He\"}'', ''{\"response\":\"llo\"}'', ''{\"done\":true}''] Eof =
     ([JStr ''He'', JStr ''llo''], Broke) \<and>
   stream_reply sample_world =
     Response 200 ([''{\"response\":\"He\"}'', ''{\"response\":\"llo\"}'', ''{\"done\":true}''], Eof) \<and>
   fst (snd (turn Phi sample_lib sample_world (sample_session True) ''Hello'')) =
     [Thinking, StreamPrefix, Fragment (JStr ''He''), Fragment (JStr ''llo''), StreamNewline,
      ResponseTime] \<and>
   snd (snd (turn Phi sample_lib sample_world (sample_session True) ''Hello'')) = Continue \<and>
   conversation_history (chat (fst (turn Phi sample_lib sample_world (sample_session True) ''Hello''))) =
     JArr [JObj [(''role'', JStr ''user''), (''content'', JStr ''Hello''),
                 (''timestamp'', JStr ''2024-05-01T09:00:05'')]]"
  by code_simp

text \<open>
  C10. In complete mode, when the service answers 200 and the text of the reply is the
  empty string (the field is empty, or absent and so defaulted to the empty string), no
  assistant message is appended: the history is the one before followed by the user
  message, the missing reply is reported, and the loop continues.
\<close>

theorem empty_reply_is_not_appended:
  assumes "\<not> streaming_mode st"
    and "conversation_history (chat st) = JArr entries"
    and "py_strip raw \<noteq> []"
    and "\<not> prefix ''/'' (py_strip raw)"
    and "generate_reply w = Response 200 body"
    and "py_get body ''response'' (JStr []) = Inr (JStr [])"
  shows "turn c L w st raw =
           (st\<lparr>chat := (chat st)\<lparr>conversation_history :=
                  JArr (entries @ [message ''user'' (JStr (py_strip raw)) (now_user w)])\<rparr>\<rparr>,
            [Thinking, NoReply], Continue)"
  using assms by (simp add: turn_chat_turn chat_turn_def Let_def)

theorem empty_reply_is_not_appended_witness:
  "\<not> streaming_mode (sample_session False) \<and>
   conversation_history (chat (sample_session False)) = JArr [] \<and>
   py_strip ''Hello'' \<noteq> [] \<and>
   \<not> prefix ''/'' (py_strip ''Hello'') \<and>
   generate_reply sample_world = Response 200 (JObj [(''response'', JStr [])]) \<and>
   py_get (JObj [(''response'', JStr [])]) ''response'' (JStr []) = Inr (JStr []) \<and>
   turn Phi sample_lib sample_world (sample_session False) ''Hello'' =
     ((sample_session False)\<lparr>chat := (chat (sample_session False))\<lparr>conversation_history :=
         JArr ([] @ [message ''user'' (JStr (py_strip ''Hello'')) (now_user sample_world)])\<rparr>\<rparr>,
      [Thinking, NoReply], Continue)"
proof -
  have h1: "\<not> streaming_mode (sample_session False)" by (simp add: sample_session_def)
  have h2: "conversation_history (chat (sample_session False)) = JArr []"
    by (simp add: sample_session_def sample_chat_def)
  have h3: "py_strip ''Hello'' \<noteq> []" by code_simp
  have h4: "\<not> prefix ''/'' (py_strip ''Hello'')" by code_simp
  have h5: "generate_reply sample_world = Response 200 (JObj [(''response'', JStr [])])"
    by (simp add: sample_world_def)
  have h6: "py_get (JObj [(''response'', JStr [])]) ''response'' (JStr []) = Inr (JStr [])"
    by simp
  from empty_reply_is_not_appended [OF h1 h2 h3 h4 h5 h6, of Phi sample_lib]
    h1 h2 h3 h4 h5 h6
  show ?thesis by simp
qed

section \<open>Saving and loading\<close>

text \<open>
  C2, as amended. When the file cannot be opened, or is not JSON, or is JSON but not an
  object, \<^verbatim>\<open>load\<close> reports an error and the chat, with its history, is exactly the
  one from before.
\<close>

theorem load_failure_keeps_history:
  assumes "\<forall>kv. json_load L d filename \<noteq> Some (JObj kv)"
  shows "load_conversation L d s filename = (s, [LoadError])"
proof (cases "json_load L d filename")
  case None
  then show ?thesis by (simp add: load_conversation_def)
next
  case (Some data)
  with assms have "\<forall>kv. data \<noteq> JObj kv" by simp
  then have "py_get data ''conversation'' (JArr []) = Inl AttributeError"
    by (cases data) simp_all
  with Some show ?thesis by (simp add: load_conversation_def)
qed

theorem load_failure_keeps_history_witness:
  "(\<forall>kv. json_load sample_lib [''t.json'' \<mapsto> ''null'', ''bad.json'' \<mapsto> ''not json'']
           ''missing.json'' \<noteq> Some (JObj kv)) \<and>
   (\<forall>kv. json_load sample_lib [''t.json'' \<mapsto> ''null'', ''bad.json'' \<mapsto> ''not json'']
           ''bad.json'' \<noteq> Some (JObj kv)) \<and>
   (\<forall>kv. json_load sample_lib [''t.json'' \<mapsto> ''null'', ''bad.json'' \<mapsto> ''not json'']
           ''t.json'' \<noteq> Some (JObj kv)) \<and>
   load_conversation sample_lib [''t.json'' \<mapsto> ''null'', ''bad.json'' \<mapsto> ''not json'']
     sample_saved_chat ''missing.json'' = (sample_saved_chat, [LoadError]) \<and>
   load_conversation sample_lib [''t.json'' \<mapsto> ''null'', ''bad.json'' \<mapsto> ''not json'']
     sample_saved_chat ''bad.json'' = (sample_saved_chat, [LoadError]) \<and>
   load_conversation sample_lib [''t.json'' \<mapsto> ''null'', ''bad.json'' \<mapsto> ''not json'']
     sample_saved_chat ''t.json'' = (sample_saved_chat, [LoadError])"
proof -
  let ?d = "[''t.json'' \<mapsto> ''null'', ''bad.json'' \<mapsto> ''not json'']"
  have a: "json_load sample_lib ?d ''missing.json'' = None" by code_simp
  have b: "json_load sample_lib ?d ''bad.json'' = None" by code_simp
  have c: "json_load sample_lib ?d ''t.json'' = Some JNull" by code_simp
  have h1: "\<forall>kv. json_load sample_lib ?d ''missing.json'' \<noteq> Some (JObj kv)"
    using a by simp
  have h2: "\<forall>kv. json_load sample_lib ?d ''bad.json'' \<noteq> Some (JObj kv)"
    using b by simp
  have h3: "\<forall>kv. json_load sample_lib ?d ''t.json'' \<noteq> Some (JObj kv)"
    using c by simp
  from load_failure_keeps_history [OF h1, of sample_saved_chat]
    load_failure_keeps_history [OF h2, of sample_saved_chat]
    load_failure_keeps_history [OF h3, of sample_saved_chat] h1 h2 h3
  show ?thesis by simp
qed

text \<open>
  The claim as stated fails: a document is not checked beyond being an object. The file
  \<^verbatim>\<open>{"conversation": "oops"}\<close> is no transcript, yet no error is reported: the
  history, an empty list before, is the string oops afterwards, and four messages are
  reported as loaded.
\<close>

theorem load_malformed_counterexample:
  "conversation_history sample_chat = JArr [] \<and>
   json_load sample_lib [''t.json'' \<mapsto> ''{\"conversation\": \"oops\"}''] ''t.json'' =
     Some (JObj [(''conversation'', JStr ''oops'')]) \<and>
   snd (load_conversation sample_lib [''t.json'' \<mapsto> ''{\"conversation\": \"oops\"}'']
          sample_chat ''t.json'') = [Loaded 4] \<and>
   conversation_history
     (fst (load_conversation sample_lib [''t.json'' \<mapsto> ''{\"conversation\": \"oops\"}'']
             sample_chat ''t.json'')) = JStr ''oops''"
  by code_simp

text \<open>
  The history is assigned before its length is taken (gemma 172-173, phi 110-111): for
  the file \<^verbatim>\<open>{"conversation": 5}\<close> an error is reported and the history has been
  replaced all the same.
\<close>

lemma load_replaces_before_len:
  "load_conversation sample_lib [''t.json'' \<mapsto> ''{\"conversation\": 5}''] sample_chat ''t.json'' =
     (sample_chat\<lparr>conversation_history := JInt 5\<rparr>, [LoadError])"
  by (simp add: load_conversation_def json_load_def sample_lib_def sample_texts_def)



section \<open>Timestamps\<close>



lemma entry_timestamp_message [simp]: "entry_timestamp (message role content t) = Some t"
  by (simp add: message_def)








section \<open>The history command\<close>

lemma text_entryE:
  assumes "text_entry m"
  obtains kv r t where "m = JObj kv" "map_of kv ''role'' = Some r"
    "map_of kv ''content'' = Some (JStr t)"
  using assms by (cases m) (auto split: option.splits json.splits)

lemma history_entry_text:
  assumes "map_of kv ''role'' = Some r" and "map_of kv ''content'' = Some (JStr t)"
  shows "\<exists>col. history_entry c i (JObj kv) = Inr (HistoryLine i r (JStr (shown_content c t)) col)"
  using assms by (cases c) auto

lemma history_lines_text:
  "list_all text_entry msgs \<Longrightarrow>
   \<exists>lns. history_lines c i msgs = (lns, None) \<and> length lns = length msgs \<and>
     (\<forall>j<length msgs. \<exists>r t col.
        py_getitem (msgs ! j) ''role'' = Inr r \<and>
        py_getitem (msgs ! j) ''content'' = Inr (JStr t) \<and>
        lns ! j = HistoryLine (i + j) r (JStr (shown_content c t)) col)"
proof (induction msgs arbitrary: i)
  case Nil
  then show ?case by simp
next
  case (Cons m msgs)
  then have m: "text_entry m" and rest: "list_all text_entry msgs" by simp_all
  from m obtain kv r t where kv: "m = JObj kv" "map_of kv ''role'' = Some r"
    "map_of kv ''content'' = Some (JStr t)"
    by (rule text_entryE)
  from history_entry_text [OF kv(2,3), of c i] obtain col where
    e: "history_entry c i m = Inr (HistoryLine i r (JStr (shown_content c t)) col)"
    using kv(1) by blast
  from Cons.IH [OF rest, of "Suc i"] obtain lns where
    l: "history_lines c (Suc i) msgs = (lns, None)" "length lns = length msgs"
      "\<forall>j<length msgs. \<exists>r t col.
        py_getitem (msgs ! j) ''role'' = Inr r \<and>
        py_getitem (msgs ! j) ''content'' = Inr (JStr t) \<and>
        lns ! j = HistoryLine (Suc i + j) r (JStr (shown_content c t)) col"
    by blast
  let ?ln = "HistoryLine i r (JStr (shown_content c t)) col"
  have 1: "history_lines c i (m # msgs) = (?ln # lns, None)" using e l(1) by simp
  have 2: "length (?ln # lns) = length (m # msgs)" using l(2) by simp
  have 3: "\<forall>j<length (m # msgs). \<exists>r t col.
        py_getitem ((m # msgs) ! j) ''role'' = Inr r \<and>
        py_getitem ((m # msgs) ! j) ''content'' = Inr (JStr t) \<and>
        (?ln # lns) ! j = HistoryLine (i + j) r (JStr (shown_content c t)) col"
  proof (intro allI impI)
    fix j assume j: "j < length (m # msgs)"
    show "\<exists>r t col.
        py_getitem ((m # msgs) ! j) ''role'' = Inr r \<and>
        py_getitem ((m # msgs) ! j) ''content'' = Inr (JStr t) \<and>
        (?ln # lns) ! j = HistoryLine (i + j) r (JStr (shown_content c t)) col"
    proof (cases j)
      case 0
      then show ?thesis using kv by simp
    next
      case (Suc k)
      with j have "k < length msgs" by simp
      with l(3) Suc show ?thesis by simp
    qed
  qed
  from 1 2 3 show ?case by blast
qed

text \<open>
  C9, as amended. For a history that is a non-empty list of entries with a role and a
  string content, the history command prints a header, then one line for each entry in
  the order of the list, numbered from 1, then a footer, and raises nothing. The line of
  an entry shows its role and its content: the content whole when it has at most 100
  characters (Gemma) or 80 (Phi), and otherwise its first 100 (80) characters followed
  by three dots, so what is shown has at most 103 (83) characters.
\<close>

theorem history_renders_each_entry:
  assumes "conversation_history s = JArr msgs"
    and "msgs \<noteq> []"
    and "list_all text_entry msgs"
  shows "\<exists>lns. show_history c s = (HistoryHeader # lns @ [HistoryFooter], None) \<and>
           length lns = length msgs \<and>
           (\<forall>j<length msgs. \<exists>r t col.
              py_getitem (msgs ! j) ''role'' = Inr r \<and>
              py_getitem (msgs ! j) ''content'' = Inr (JStr t) \<and>
              lns ! j = HistoryLine (Suc j) r (JStr (shown_content c t)) col \<and>
              length (shown_content c t) \<le> preview_length c + 3) \<and>
           preview_length c \<le> 100"
proof -
  from history_lines_text [OF assms(3), of c 1] obtain lns where
    l: "history_lines c 1 msgs = (lns, None)" "length lns = length msgs"
      "\<forall>j<length msgs. \<exists>r t col.
        py_getitem (msgs ! j) ''role'' = Inr r \<and>
        py_getitem (msgs ! j) ''content'' = Inr (JStr t) \<and>
        lns ! j = HistoryLine (1 + j) r (JStr (shown_content c t)) col"
    by blast
  have a: "show_history c s = (HistoryHeader # lns @ [HistoryFooter], None)"
    using assms(1,2) l(1) by (simp add: show_history_def)
  have b: "length (shown_content c t) \<le> preview_length c + 3" for t
    by simp
  have d: "preview_length c \<le> 100" by (cases c) simp_all
  from a l(2) l(3) b d show ?thesis by auto
qed

theorem history_renders_each_entry_witness:
  "conversation_history sample_saved_chat =
     JArr [message ''user'' (JStr ''Hello'') ''2024-05-01T09:00:05'',
           message ''assistant'' (JStr ''Hi there'') ''2024-05-01T09:00:07''] \<and>
   list_all text_entry
     [message ''user'' (JStr ''Hello'') ''2024-05-01T09:00:05'',
      message ''assistant'' (JStr ''Hi there'') ''2024-05-01T09:00:07''] \<and>
   (\<exists>lns. show_history Phi sample_saved_chat = (HistoryHeader # lns @ [HistoryFooter], None) \<and>
      length lns = 2) \<and>
   show_history Phi sample_saved_chat =
     ([HistoryHeader,
       HistoryLine 1 (JStr ''user'') (JStr ''Hello'') UserColour,
       HistoryLine 2 (JStr ''assistant'') (JStr ''Hi there'') ModelColour,
       HistoryFooter], None)"
proof -
  have h1: "conversation_history sample_saved_chat =
     JArr [message ''user'' (JStr ''Hello'') ''2024-05-01T09:00:05'',
           message ''assistant'' (JStr ''Hi there'') ''2024-05-01T09:00:07'']"
    by (simp add: sample_saved_chat_def)
  have h2: "[message ''user'' (JStr ''Hello'') ''2024-05-01T09:00:05'',
             message ''assistant'' (JStr ''Hi there'') ''2024-05-01T09:00:07''] \<noteq> []"
    by simp
  have h3: "list_all text_entry
     [message ''user'' (JStr ''Hello'') ''2024-05-01T09:00:05'',
      message ''assistant'' (JStr ''Hi there'') ''2024-05-01T09:00:07'']"
    by (simp add: message_def)
  have e: "show_history Phi sample_saved_chat =
     ([HistoryHeader,
       HistoryLine 1 (JStr ''user'') (JStr ''Hello'') UserColour,
       HistoryLine 2 (JStr ''assistant'') (JStr ''Hi there'') ModelColour,
       HistoryFooter], None)"
    by code_simp
  from history_renders_each_entry [OF h1 h2 h3, of Phi] h1 h3 e
  show ?thesis by auto
qed

text \<open>
  The claim as stated fails: Gemma shows a content of 101 characters as its first 100
  characters and three dots, a preview of 103 characters.
\<close>

theorem history_preview_counterexample:
  "show_history Gemma
     (sample_chat\<lparr>conversation_history :=
        JArr [message ''user'' (JStr (replicate 101 CHR ''a'')) ''2024-05-01T09:00:05'']\<rparr>) =
     ([HistoryHeader,
       HistoryLine 1 (JStr ''user'') (JStr (replicate 100 CHR ''a'' @ ''...'')) UserColour,
       HistoryFooter], None) \<and>
   length (replicate 100 CHR ''a'' @ ''...'') = 103"
  by code_simp

section \<open>The decoder: lines that are not records\<close>

lemma stream_record_no_fields:
  "map_of kv ''response'' = None \<Longrightarrow> map_of kv ''done'' = None \<Longrightarrow>
   stream_record c (JObj kv) = Inr ([], False)"
  by (cases c) (simp_all add: stream_record_def)

text \<open>
  X1. A line that decodes but is not JSON, and a line that parses to a dict with neither
  \<^verbatim>\<open>response\<close> nor \<^verbatim>\<open>done\<close>, is passed over: the loop goes on with the lines
  after it as if the line had not been there.
\<close>

theorem unparsable_line_is_skipped:
  assumes "utf8_decode L line = Some txt"
    and "json_loads L txt = None \<or>
         (\<exists>kv. json_loads L txt = Some (JObj kv) \<and> map_of kv ''response'' = None \<and>
               map_of kv ''done'' = None)"
  shows "stream_loop c L (line # rest) e = stream_loop c L rest e"
  using assms by (auto simp: stream_record_no_fields split: prod.splits)

theorem unparsable_line_is_skipped_witness:
  "utf8_decode sample_lib ''not json'' = Some ''not json'' \<and>
   json_loads sample_lib ''not json'' = None \<and>
   stream_loop Phi sample_lib
     (''not json'' # [''{\"response\":\"llo\"}'', ''{\"done\":true}'']) Eof =
     stream_loop Phi sample_lib [''{\"response\":\"llo\"}'', ''{\"done\":true}''] Eof \<and>
   stream_loop Phi sample_lib
     [''{\"response\":\"He\"}'', ''not json'', ''{}'', ''{\"response\":\"llo\"}'', ''{\"done\":true}'']
     Eof = ([JStr ''He'', JStr ''llo''], Broke)"
proof -
  have h1: "utf8_decode sample_lib ''not json'' = Some ''not json''" by code_simp
  have h2: "json_loads sample_lib ''not json'' = None" by code_simp
  have h3: "json_loads sample_lib ''not json'' = None \<or>
         (\<exists>kv. json_loads sample_lib ''not json'' = Some (JObj kv) \<and>
               map_of kv ''response'' = None \<and> map_of kv ''done'' = None)"
    using h2 by simp
  have e: "stream_loop Phi sample_lib
     [''{\"response\":\"He\"}'', ''not json'', ''{}'', ''{\"response\":\"llo\"}'', ''{\"done\":true}'']
     Eof = ([JStr ''He'', JStr ''llo''], Broke)"
    by code_simp
  from unparsable_line_is_skipped [OF h1 h3, of Phi "[''{\"response\":\"llo\"}'', ''{\"done\":true}'']" Eof]
    h1 h2 e
  show ?thesis by simp
qed

text \<open>
  C6. The claim does not hold of the code for every line that is no record. Only
  JSONDecodeError is caught (gemma 137, phi 85). A line that is JSON but not a dict, here
  \<^verbatim>\<open>null\<close>, raises TypeError at \<^verbatim>\<open>'response' in data\<close>, and a line that is not
  UTF-8 raises UnicodeDecodeError at \<^verbatim>\<open>line.decode('utf-8')\<close>; neither is caught in
  \<^verbatim>\<open>stream_message\<close>. The stream is aborted: the fragment llo of the record after
  the bad line is never printed, and the exception leaves \<^verbatim>\<open>stream_message\<close>.
\<close>

theorem non_record_line_aborts_stream:
  "stream_loop Phi sample_lib
     [''{\"response\":\"He\"}'', ''null'', ''{\"response\":\"llo\"}'', ''{\"done\":true}''] Eof =
     ([JStr ''He''], Raised TypeError) \<and>
   stream_message Phi sample_lib
     (Response 200
        ([''{\"response\":\"He\"}'', ''null'', ''{\"response\":\"llo\"}'', ''{\"done\":true}''], Eof)) =
     ([StreamPrefix, Fragment (JStr ''He'')], Some TypeError) \<and>
   stream_loop Phi sample_lib
     [''{\"response\":\"He\"}'', [CHR 0xFF], ''{\"response\":\"llo\"}'', ''{\"done\":true}''] Eof =
     ([JStr ''He''], Raised UnicodeDecodeError)"
  by code_simp

section \<open>The model command\<close>

text \<open>
  C7. The claim does not hold of Gemma, which lowers the whole command line before it
  splits it (line 274), the model name included. The service lists
  \<^verbatim>\<open>llama3:8b-instruct-q4_K_M\<close>; asked for that name, Gemma looks up
  \<^verbatim>\<open>llama3:8b-instruct-q4_k_m\<close>, reports it as not found and keeps the model. Asked
  for \<^verbatim>\<open>Phi4-Mini:3.8B\<close>, which the service does not list, it switches to
  \<^verbatim>\<open>phi4-mini:3.8b\<close> and reports no error.
\<close>

theorem gemma_model_command_lowers_name:
  "get_available_models (tags_reply sample_world) =
     [''gemma2:9b'', ''llama3:8b-instruct-q4_K_M'', ''phi4-mini:3.8b''] \<and>
   model (chat (sample_session False)) = ''gemma2:9b'' \<and>
   model (chat (fst (turn Gemma sample_lib sample_world (sample_session False)
                       ''/model llama3:8b-instruct-q4_K_M''))) = ''gemma2:9b'' \<and>
   fst (snd (turn Gemma sample_lib sample_world (sample_session False)
               ''/model llama3:8b-instruct-q4_K_M'')) =
     [ModelNotFound ''llama3:8b-instruct-q4_k_m''] \<and>
   model (chat (fst (turn Gemma sample_lib sample_world (sample_session False)
                       ''/model Phi4-Mini:3.8B''))) = ''phi4-mini:3.8b'' \<and>
   fst (snd (turn Gemma sample_lib sample_world (sample_session False)
               ''/model Phi4-Mini:3.8B'')) =
     [SwitchedModel ''phi4-mini:3.8b'']"
  by code_simp

text \<open>
  X2. Phi lowers the command word only (lines 171-172) and does what C7 says: for a line
  whose first word is \<^verbatim>\<open>/model\<close> in any case and whose second word is a name, the
  model becomes exactly that name when the service lists it, and otherwise the model is
  unchanged and the name is reported as not found.
\<close>

theorem phi_model_command:
  assumes "prefix ''/'' (py_strip raw)"
    and "py_split (py_strip raw) = cmd # name # rest"
    and "py_lower cmd = ''/model''"
  shows "turn Phi L w st raw =
           (if name \<in> set (get_available_models (tags_reply w))
            then (st\<lparr>chat := (chat st)\<lparr>model := name\<rparr>\<rparr>, [SwitchedModel name], Continue)
            else (st, [ModelNotFound name], Continue))"
proof -
  from assms(1) have "py_strip raw \<noteq> []" by auto
  then show ?thesis using assms by (simp add: turn_def Let_def)
qed

theorem phi_model_command_witness:
  "prefix ''/'' (py_strip ''/MODEL llama3:8b-instruct-q4_K_M'') \<and>
   py_split (py_strip ''/MODEL llama3:8b-instruct-q4_K_M'') =
     ''/MODEL'' # ''llama3:8b-instruct-q4_K_M'' # [] \<and>
   py_lower ''/MODEL'' = ''/model'' \<and>
   turn Phi sample_lib sample_world (sample_session False) ''/MODEL llama3:8b-instruct-q4_K_M'' =
     ((sample_session False)\<lparr>chat := (chat (sample_session False))\<lparr>model :=
         ''llama3:8b-instruct-q4_K_M''\<rparr>\<rparr>,
      [SwitchedModel ''llama3:8b-instruct-q4_K_M''], Continue)"
proof -
  have h1: "prefix ''/'' (py_strip ''/MODEL llama3:8b-instruct-q4_K_M'')" by code_simp
  have h2: "py_split (py_strip ''/MODEL llama3:8b-instruct-q4_K_M'') =
     ''/MODEL'' # ''llama3:8b-instruct-q4_K_M'' # []" by code_simp
  have h3: "py_lower ''/MODEL'' = ''/model''" by code_simp
  have m: "''llama3:8b-instruct-q4_K_M'' \<in> set (get_available_models (tags_reply sample_world))"
    by (simp add: sample_world_def)
  from phi_model_command [OF h1 h2 h3, of sample_lib sample_world "sample_session False"] h1 h2 h3 m
  show ?thesis by simp
qed

end
